theory Spec2Isabelle
  imports
    Complex_Main
    "HOL-Library.Multiset"
    "HOL-Library.Char_ord"
    "HOL-Library.List_Lexorder"
    "HOL-Library.Product_Lexorder"
begin

section \<open>Waterboy: the moisture reading service (backend/src/server.js)\<close>

text \<open>
  The service is five Express handlers, each of which sends one SQL statement to a
  PostgreSQL pool and renders the result as JSON. The handlers are modelled as functions
  from the request (and, where the statement writes, the store) to the response (and the
  new store). The store is the table \<open>readings\<close>; each SQL statement of the source is a
  function on the list of its rows.

  What lies outside the repository is a parameter of the model, collected in the record
  \<open>pg\<close>: the text the driver sends for a parameter that is not a string, the server's
  readers for the texts of a \<open>numeric\<close>, a \<open>bigint\<close> and an \<open>interval\<close>, the order of
  texts under the collation of the database, the order in which the server delivers rows
  that a statement's \<open>ORDER BY\<close> leaves tied, and the wording of the server's error
  messages. A failure of the connection itself (which every handler turns into a 500
  response) is not modelled: the store always answers.
\<close>

subsection \<open>JavaScript values of a request\<close>

text \<open>
  What \<open>req.body\<close> and \<open>req.query\<close> hold after the body and query parsers: JSON values,
  and \<open>undefined\<close> for a property that is not there. \<open>JNum n\<close> is a finite number, taken
  as the rational that its decimal text denotes (the text is what the driver sends to
  the store); \<open>JInfinity\<close> is \<open>Infinity\<close> (\<open>True\<close>) or \<open>-Infinity\<close> (\<open>False\<close>), which the
  JSON parser gives for a literal beyond the range of a double. A string is the sequence
  of the bytes of its UTF-8 encoding. The body is taken to be an object, as the parsers
  leave it.
\<close>

datatype jsval =
    JUndefined
  | JNull
  | JBool bool
  | JNum rat
  | JInfinity bool
  | JStr string
  | JArr "jsval list"
  | JObj "(string \<times> jsval) list"

text \<open>JavaScript's \<open>ToBoolean\<close>: what \<open>!v\<close> and \<open>v || d\<close> test.\<close>

fun truthy :: "jsval \<Rightarrow> bool" where
  "truthy JUndefined = False"
| "truthy JNull = False"
| "truthy (JBool b) = b"
| "truthy (JNum n) = (n \<noteq> 0)"
| "truthy (JInfinity _) = True"
| "truthy (JStr s) = (s \<noteq> [])"
| "truthy (JArr _) = True"
| "truthy (JObj _) = True"

definition js_or :: "jsval \<Rightarrow> jsval \<Rightarrow> jsval" where
  "js_or a b = (if truthy a then a else b)"

text \<open>
  An object is the list of its own properties; reading a property that is not there
  gives \<open>undefined\<close> (this is what the destructuring \<open>const { pot_id, ... } = req.body\<close>
  does for each name).
\<close>

type_synonym jsobject = "(string \<times> jsval) list"

definition js_get :: "jsobject \<Rightarrow> string \<Rightarrow> jsval" where
  "js_get obj k = (case map_of obj k of None \<Rightarrow> JUndefined | Some v \<Rightarrow> v)"

subsection \<open>The store\<close>

text \<open>
  Modelled from the spec: the table \<open>readings\<close>, whose declaration is not among the
  sources. Section 6 of the specification gives it as
  \<^verbatim>\<open>
  readings(id auto-increment primary key, pot_id text not null, location text nullable,
           raw_value numeric not null, moisture_percent numeric not null,
           timestamp timestamp not null default = insertion time)
  \<close>
  A row is a record; the nullable column is an \<open>option\<close>, the other columns cannot hold
  NULL. A \<open>numeric\<close> is a rational, not-a-number or an infinity. Timestamps are instants
  on the server's clock, counted in microseconds. The column \<open>id\<close> is the field \<open>rid\<close>,
  since \<open>id\<close> is HOL's identity function. The store is the list of rows, in the order of
  insertion, and the next value of the id sequence.
\<close>

datatype numeric =
    Num rat
  | NotANumber
  | Infinite bool

record reading =
  rid :: int
  pot_id :: string
  location :: "string option"
  raw_value :: numeric
  moisture_percent :: numeric
  timestamp :: int

record store =
  rows :: "reading list"
  next_id :: int

text \<open>
  The errors a statement of this service can end in: a text with a byte that the
  encoding of the database does not allow, a text that is not a value of the type it is
  bound to (type and text), NULL in a NOT NULL column (named), a value of the primary
  key that is already taken, a negative \<open>LIMIT\<close>.
\<close>

datatype db_error =
    InvalidByteSequence string
  | InvalidInput string string
  | NotNullViolation string
  | UniqueViolation string
  | NegativeLimit

text \<open>
  The parameters of the model.
  \<^item> \<open>to_text\<close> is the text the driver sends for a parameter that is neither a string nor
    null (a number, a boolean, an array, an object).
  \<^item> \<open>numeric_in\<close>, \<open>int8_in\<close> and \<open>interval_in\<close> are the server's readers for the three
    types: \<open>None\<close> for a text that is no value of the type; an interval is read as a
    number of microseconds.
  \<^item> \<open>collation_key\<close> gives the order of texts under the collation of the database: texts
    are ordered as their keys are, and texts with equal keys byte by byte (the C
    collation has the text itself as the key).
  \<^item> \<open>row_rank\<close> and \<open>group_rank\<close> give the order in which the server delivers rows,
    and groups of rows, that the \<open>ORDER BY\<close> of a statement leaves tied. SQL leaves that
    order to the server; every order of tied rows is the order of some rank.
  \<^item> \<open>message\<close> is the \<open>error.message\<close> of a failed statement.
\<close>

record pg =
  to_text :: "jsval \<Rightarrow> string"
  numeric_in :: "string \<Rightarrow> numeric option"
  int8_in :: "string \<Rightarrow> int option"
  interval_in :: "string \<Rightarrow> int option"
  collation_key :: "string \<Rightarrow> string"
  row_rank :: "reading \<Rightarrow> int"
  group_rank :: "string \<times> string option \<Rightarrow> int"
  message :: "db_error \<Rightarrow> string"

text \<open>
  A text that reaches the server: it is refused when it holds the byte 0, which no
  \<open>text\<close> value may hold.
\<close>

definition text_in :: "string \<Rightarrow> db_error + string" where
  "text_in s = (if CHR 0x00 \<in> set s then Inl (InvalidByteSequence s) else Inr s)"

text \<open>
  A query parameter bound to a \<open>text\<close> column: \<open>null\<close> and \<open>undefined\<close> are sent as NULL,
  a string as itself, anything else as the driver's text for it.
\<close>

definition some_text :: "string \<Rightarrow> db_error + string option" where
  "some_text s = (case text_in s of Inl e \<Rightarrow> Inl e | Inr t \<Rightarrow> Inr (Some t))"

definition text_param :: "pg \<Rightarrow> jsval \<Rightarrow> db_error + string option" where
  "text_param p v =
     (case v of
        JUndefined \<Rightarrow> Inr None
      | JNull \<Rightarrow> Inr None
      | JStr s \<Rightarrow> some_text s
      | _ \<Rightarrow> some_text (to_text p v))"

text \<open>
  A query parameter bound to a \<open>numeric\<close> column: a finite number is stored as it is, a
  text must read as a numeric, otherwise the statement fails before it runs.
\<close>

definition numeric_text :: "pg \<Rightarrow> string \<Rightarrow> db_error + numeric option" where
  "numeric_text p s =
     (case numeric_in p s of
        None \<Rightarrow> Inl (InvalidInput ''numeric'' s)
      | Some n \<Rightarrow> Inr (Some n))"

definition numeric_param :: "pg \<Rightarrow> jsval \<Rightarrow> db_error + numeric option" where
  "numeric_param p v =
     (case v of
        JUndefined \<Rightarrow> Inr None
      | JNull \<Rightarrow> Inr None
      | JNum n \<Rightarrow> Inr (Some (Num n))
      | JStr s \<Rightarrow> numeric_text p s
      | _ \<Rightarrow> numeric_text p (to_text p v))"

text \<open>
  The statement of \<open>POST /api/moisture\<close>:
  \<^verbatim>\<open>
  INSERT INTO readings (pot_id, location, raw_value, moisture_percent, timestamp)
  VALUES ($1, $2, $3, $4, NOW())
  RETURNING *
  \<close>
  The four parameters are read first, in their order, and a text or a numeric that the
  server refuses ends the statement there. Then the row takes the next id of the
  sequence (which stays taken when the row is refused), the NOT NULL constraints and
  the primary key are checked, and an accepted row is appended and returned.
\<close>

definition insert_reading ::
  "pg \<Rightarrow> int \<Rightarrow> jsval \<times> jsval \<times> jsval \<times> jsval \<Rightarrow> store \<Rightarrow> (db_error + reading) \<times> store" where
  "insert_reading p now vals st =
     (case vals of (v1, v2, v3, v4) \<Rightarrow>
      (case text_param p v1 of
         Inl e \<Rightarrow> (Inl e, st)
       | Inr pot \<Rightarrow>
      (case text_param p v2 of
         Inl e \<Rightarrow> (Inl e, st)
       | Inr loc \<Rightarrow>
      (case numeric_param p v3 of
         Inl e \<Rightarrow> (Inl e, st)
       | Inr raw \<Rightarrow>
      (case numeric_param p v4 of
         Inl e \<Rightarrow> (Inl e, st)
       | Inr pct \<Rightarrow>
      (let st1 = st\<lparr>next_id := next_id st + 1\<rparr> in
       case pot of
         None \<Rightarrow> (Inl (NotNullViolation ''pot_id''), st1)
       | Some pt \<Rightarrow>
      (case raw of
         None \<Rightarrow> (Inl (NotNullViolation ''raw_value''), st1)
       | Some r \<Rightarrow>
      (case pct of
         None \<Rightarrow> (Inl (NotNullViolation ''moisture_percent''), st1)
       | Some m \<Rightarrow>
      (if next_id st \<in> set (map rid (rows st))
       then (Inl (UniqueViolation ''id''), st1)
       else (let row = \<lparr>rid = next_id st, pot_id = pt, location = loc,
                         raw_value = r, moisture_percent = m, timestamp = now\<rparr>
             in (Inr row, st1\<lparr>rows := rows st @ [row]\<rparr>)))))))))))"

text \<open>
  The stores the service builds have every id below the next value of the sequence, so
  that the primary key never refuses the id a new row takes.
\<close>

definition ids_below :: "store \<Rightarrow> bool" where
  "ids_below st = (\<forall>r \<in> set (rows st). rid r < next_id st)"

subsection \<open>Responses\<close>

text \<open>
  A cell of a result row, and a result row as the driver hands it to the handler: an
  object with one property per selected column, in the order of the select list.
\<close>

datatype sqlval =
    SNull
  | SInt int
  | SNumeric numeric
  | SText string
  | STimestamp int

type_synonym row = "(string \<times> sqlval) list"

text \<open>
  \<open>res.status(n).json({...})\<close>: the status and the properties of the body, in the order
  the source writes them. A property is one of the few shapes the handlers produce.
\<close>

datatype out =
    OBool bool
  | ONum nat
  | OStr string
  | ORow row
  | ORows "row list"

record response =
  status :: nat
  body :: "(string \<times> out) list"

text \<open>What \<open>SELECT *\<close> and \<open>RETURNING *\<close> give for a row: every column of the table.\<close>

definition opt_text :: "string option \<Rightarrow> sqlval" where
  "opt_text l = (case l of None \<Rightarrow> SNull | Some s \<Rightarrow> SText s)"

definition star :: "reading \<Rightarrow> row" where
  "star r =
     [(''id'', SInt (rid r)),
      (''pot_id'', SText (pot_id r)),
      (''location'', opt_text (location r)),
      (''raw_value'', SNumeric (raw_value r)),
      (''moisture_percent'', SNumeric (moisture_percent r)),
      (''timestamp'', STimestamp (timestamp r))]"

subsection \<open>POST /api/moisture\<close>

text \<open>
  \<^verbatim>\<open>
  const { pot_id, location, raw_value, moisture_percent } = req.body;
  if (!pot_id || raw_value === undefined || moisture_percent === undefined) {
    return res.status(400).json({
      error: 'Missing required fields: pot_id, raw_value, moisture_percent' });
  }
  const values = [pot_id, location || null, raw_value, moisture_percent];
  const result = await pool.query(query, values);
  res.status(201).json({ success: true, data: result.rows[0] });
  ... catch (error) {
    res.status(500).json({ error: 'Failed to save reading', details: error.message });
  \<close>
  \<open>now\<close> is the reading of the server's clock that \<open>NOW()\<close> gives this statement.
\<close>

definition submit :: "pg \<Rightarrow> int \<Rightarrow> jsobject \<Rightarrow> store \<Rightarrow> response \<times> store" where
  "submit p now req_body st =
     (let pot = js_get req_body ''pot_id'';
          loc = js_get req_body ''location'';
          raw = js_get req_body ''raw_value'';
          pct = js_get req_body ''moisture_percent''
      in if \<not> truthy pot \<or> raw = JUndefined \<or> pct = JUndefined
         then (\<lparr>status = 400,
                body = [(''error'',
                  OStr ''Missing required fields: pot_id, raw_value, moisture_percent'')]\<rparr>, st)
         else (case insert_reading p now (pot, js_or loc JNull, raw, pct) st of
                 (Inl e, st') \<Rightarrow>
                   (\<lparr>status = 500,
                     body = [(''error'', OStr ''Failed to save reading''),
                             (''details'', OStr (message p e))]\<rparr>, st')
               | (Inr r, st') \<Rightarrow>
                   (\<lparr>status = 201,
                     body = [(''success'', OBool True), (''data'', ORow (star r))]\<rparr>, st')))"

subsection \<open>GET /api/moisture/:pot_id\<close>

text \<open>
  A parameter of the query string is a string or is not there (repeated and bracketed
  parameters, which the query parser turns into arrays and objects, are not modelled).
\<close>

definition query_value :: "string option \<Rightarrow> jsval" where
  "query_value q = (case q of None \<Rightarrow> JUndefined | Some s \<Rightarrow> JStr s)"

text \<open>
  A parameter bound to \<open>LIMIT\<close>, which is a \<open>bigint\<close>: a whole number in range is itself,
  a text must read as a bigint, a negative count is refused when the statement runs, and
  \<open>LIMIT NULL\<close> is no limit.
\<close>

definition int8_text :: "pg \<Rightarrow> string \<Rightarrow> db_error + nat option" where
  "int8_text p s =
     (case int8_in p s of
        None \<Rightarrow> Inl (InvalidInput ''bigint'' s)
      | Some k \<Rightarrow> if k < 0 then Inl NegativeLimit else Inr (Some (nat k)))"

definition limit_param :: "pg \<Rightarrow> jsval \<Rightarrow> db_error + nat option" where
  "limit_param p v =
     (case v of
        JUndefined \<Rightarrow> Inr None
      | JNull \<Rightarrow> Inr None
      | JNum n \<Rightarrow>
          if of_int \<lfloor>n\<rfloor> = n \<and> \<bar>n\<bar> < 2 ^ 63
          then (if n < 0 then Inl NegativeLimit else Inr (Some (nat \<lfloor>n\<rfloor>)))
          else Inl (InvalidInput ''bigint'' (to_text p v))
      | JStr s \<Rightarrow> int8_text p s
      | _ \<Rightarrow> int8_text p (to_text p v))"

definition limit_rows :: "nat option \<Rightarrow> 'a list \<Rightarrow> 'a list" where
  "limit_rows n xs = (case n of None \<Rightarrow> xs | Some k \<Rightarrow> take k xs)"

text \<open>
  \<^verbatim>\<open>
  SELECT * FROM readings
  WHERE pot_id = $1
  ORDER BY timestamp DESC
  LIMIT $2
  \<close>
  The two parameters are read first: the text of \<open>$1\<close>, then the limit. The rows of the
  pot are sorted newest first, rows with equal timestamps in the order the server
  delivers them.
\<close>

definition newest_first :: "pg \<Rightarrow> reading list \<Rightarrow> reading list" where
  "newest_first p rs = sort_key (\<lambda>r. (- timestamp r, row_rank p r)) rs"

definition select_history :: "pg \<Rightarrow> string \<Rightarrow> jsval \<Rightarrow> store \<Rightarrow> db_error + reading list" where
  "select_history p pot limit st =
     (case text_in pot of
        Inl e \<Rightarrow> Inl e
      | Inr pt \<Rightarrow>
     (case limit_param p limit of
        Inl e \<Rightarrow> Inl e
      | Inr n \<Rightarrow>
          Inr (limit_rows n (newest_first p (filter (\<lambda>r. pot_id r = pt) (rows st))))))"

text \<open>
  \<^verbatim>\<open>
  const { pot_id } = req.params;
  const limit = req.query.limit || 100;
  const result = await pool.query(query, [pot_id, limit]);
  res.json({ success: true, pot_id, count: result.rows.length, data: result.rows });
  ... catch (error) {
    res.status(500).json({ error: 'Failed to fetch readings', details: error.message });
  \<close>
  A route parameter is always a string.
\<close>

definition history :: "pg \<Rightarrow> string \<Rightarrow> string option \<Rightarrow> store \<Rightarrow> response" where
  "history p pot query_limit st =
     (let limit = js_or (query_value query_limit) (JNum 100)
      in case select_history p pot limit st of
           Inl e \<Rightarrow>
             \<lparr>status = 500,
              body = [(''error'', OStr ''Failed to fetch readings''),
                      (''details'', OStr (message p e))]\<rparr>
         | Inr rs \<Rightarrow>
             (let result_rows = map star rs
              in \<lparr>status = 200,
                  body = [(''success'', OBool True), (''pot_id'', OStr pot),
                          (''count'', ONum (length result_rows)),
                          (''data'', ORows result_rows)]\<rparr>))"

subsection \<open>GET /api/pots/latest\<close>

text \<open>
  The place of a text in the order of the database: its collation key, then its bytes.
\<close>

definition text_order :: "pg \<Rightarrow> string \<Rightarrow> string \<times> string" where
  "text_order p s = (collation_key p s, s)"

text \<open>
  \<^verbatim>\<open>
  SELECT DISTINCT ON (pot_id)
    pot_id, location, raw_value, moisture_percent, timestamp
  FROM readings
  ORDER BY pot_id, timestamp DESC
  \<close>
  The rows are sorted by pot_id and, within a pot_id, newest first (rows tied in both
  in the order the server delivers them); \<open>DISTINCT ON\<close> then keeps the first row of each
  run of equal pot_id. The select list names five columns; \<open>id\<close> is not among them.
\<close>

fun distinct_on :: "('a \<Rightarrow> 'k) \<Rightarrow> 'a list \<Rightarrow> 'a list" where
  "distinct_on f [] = []"
| "distinct_on f [x] = [x]"
| "distinct_on f (x # y # ys) =
     (if f x = f y then distinct_on f (x # ys) else x # distinct_on f (y # ys))"

definition select_latest :: "pg \<Rightarrow> store \<Rightarrow> reading list" where
  "select_latest p st =
     distinct_on pot_id
       (sort_key (\<lambda>r. (text_order p (pot_id r), - timestamp r, row_rank p r)) (rows st))"

definition latest_columns :: "reading \<Rightarrow> row" where
  "latest_columns r =
     [(''pot_id'', SText (pot_id r)),
      (''location'', opt_text (location r)),
      (''raw_value'', SNumeric (raw_value r)),
      (''moisture_percent'', SNumeric (moisture_percent r)),
      (''timestamp'', STimestamp (timestamp r))]"

text \<open>
  \<^verbatim>\<open>
  const result = await pool.query(query);
  res.json({ success: true, count: result.rows.length, data: result.rows });
  \<close>
\<close>

definition latestPerPot :: "pg \<Rightarrow> store \<Rightarrow> response" where
  "latestPerPot p st =
     (let result_rows = map latest_columns (select_latest p st)
      in \<lparr>status = 200,
          body = [(''success'', OBool True), (''count'', ONum (length result_rows)),
                  (''data'', ORows result_rows)]\<rparr>)"

subsection \<open>GET /api/pots\<close>

text \<open>
  \<^verbatim>\<open>
  SELECT pot_id, location, COUNT(*) as reading_count, MAX(timestamp) as last_reading
  FROM readings
  GROUP BY pot_id, location
  ORDER BY pot_id
  \<close>
  One group for each pair of pot_id and location that occurs (NULL locations form one
  group), sorted by pot_id; the groups of one pot_id come in the order the server
  delivers them.
\<close>

record pot_summary =
  group_pot_id :: string
  group_location :: "string option"
  reading_count :: nat
  last_reading :: int

definition group_key :: "reading \<Rightarrow> string \<times> string option" where
  "group_key r = (pot_id r, location r)"

definition summarize :: "reading list \<Rightarrow> string \<times> string option \<Rightarrow> pot_summary" where
  "summarize rs k =
     (let members = filter (\<lambda>r. group_key r = k) rs
      in \<lparr>group_pot_id = fst k, group_location = snd k,
          reading_count = length members,
          last_reading = Max (set (map timestamp members))\<rparr>)"

definition select_pots :: "pg \<Rightarrow> store \<Rightarrow> pot_summary list" where
  "select_pots p st =
     map (summarize (rows st))
       (sort_key (\<lambda>k. (text_order p (fst k), group_rank p k))
          (remdups (map group_key (rows st))))"

definition summary_columns :: "pot_summary \<Rightarrow> row" where
  "summary_columns g =
     [(''pot_id'', SText (group_pot_id g)),
      (''location'', opt_text (group_location g)),
      (''reading_count'', SInt (int (reading_count g))),
      (''last_reading'', STimestamp (last_reading g))]"

definition listPots :: "pg \<Rightarrow> store \<Rightarrow> response" where
  "listPots p st =
     (let result_rows = map summary_columns (select_pots p st)
      in \<lparr>status = 200,
          body = [(''success'', OBool True), (''count'', ONum (length result_rows)),
                  (''data'', ORows result_rows)]\<rparr>)"

subsection \<open>DELETE /api/readings/cleanup\<close>

text \<open>
  \<^verbatim>\<open>
  const daysToKeep = req.query.days || 30;
  \<close>
  taken as the text that the template literals \<open>${daysToKeep}\<close> splice in: a string as
  itself, the number 30 as \<open>30\<close>.
\<close>

definition daysToKeep :: "string option \<Rightarrow> string" where
  "daysToKeep query_days =
     (case js_or (query_value query_days) (JNum 30) of JStr s \<Rightarrow> s | _ \<Rightarrow> ''30'')"

text \<open>
  \<^verbatim>\<open>
  DELETE FROM readings
  WHERE timestamp < NOW() - INTERVAL '${daysToKeep} days'
  RETURNING *
  \<close>
  \<open>lit\<close> is the text between the quotes. \<open>interval_in\<close> gives the length of time it denotes, in
  microseconds; a text that is no interval makes the statement fail. The statement returns
  the deleted rows.
\<close>

definition delete_older :: "pg \<Rightarrow> int \<Rightarrow> string \<Rightarrow> store \<Rightarrow> (db_error + reading list) \<times> store" where
  "delete_older p now lit st =
     (case interval_in p lit of
        None \<Rightarrow> (Inl (InvalidInput ''interval'' lit), st)
      | Some age \<Rightarrow>
          (Inr (filter (\<lambda>r. timestamp r < now - age) (rows st)),
           st\<lparr>rows := filter (\<lambda>r. \<not> timestamp r < now - age) (rows st)\<rparr>))"

text \<open>
  \<^verbatim>\<open>
  const result = await pool.query(query);
  res.json({ success: true, deleted: result.rowCount,
             message: `Deleted readings older than ${daysToKeep} days` });
  ... catch (error) {
    res.status(500).json({ error: 'Failed to cleanup readings', details: error.message });
  \<close>
  The text of \<open>days\<close> is spliced into the statement. A text with a quote in it ends the
  literal early and the statement sent is no longer the one above; what happens then is
  not described by this model, and \<open>cleanup\<close> is \<open>None\<close>.
\<close>

definition cleanup :: "pg \<Rightarrow> int \<Rightarrow> string option \<Rightarrow> store \<Rightarrow> (response \<times> store) option" where
  "cleanup p now query_days st =
     (let days = daysToKeep query_days
      in if CHR 0x27 \<in> set days then None
         else Some (case delete_older p now (days @ '' days'') st of
                      (Inl e, st') \<Rightarrow>
                        (\<lparr>status = 500,
                          body = [(''error'', OStr ''Failed to cleanup readings''),
                                  (''details'', OStr (message p e))]\<rparr>, st')
                    | (Inr gone, st') \<Rightarrow>
                        (\<lparr>status = 200,
                          body = [(''success'', OBool True),
                                  (''deleted'', ONum (length gone)),
                                  (''message'',
                                   OStr (''Deleted readings older than '' @ days @ '' days''))]\<rparr>,
                         st')))"

subsection \<open>A server to evaluate with\<close>

text \<open>
  An instance of the parameters, for evaluating the handlers on concrete requests: it
  reads a bigint and a numeric from a plain run of decimal digits and an interval from
  such a run followed by \<open>days\<close>, a day being 86400 seconds; it orders texts byte by
  byte, delivers tied rows in the order of their ids and ranks all groups alike.
\<close>

definition is_digit :: "char \<Rightarrow> bool" where
  "is_digit c = ((48::nat) \<le> of_char c \<and> of_char c \<le> (57::nat))"

definition read_digits :: "string \<Rightarrow> nat option" where
  "read_digits s =
     (if s \<noteq> [] \<and> list_all is_digit s
      then Some (foldl (\<lambda>a c. 10 * a + (of_char c - 48)) (0::nat) s)
      else None)"

definition read_days :: "string \<Rightarrow> int option" where
  "read_days s =
     (if dropWhile is_digit s = '' days''
      then map_option (\<lambda>n. int n * 86400000000) (read_digits (takeWhile is_digit s))
      else None)"

definition sample_pg :: pg where
  "sample_pg =
     \<lparr>to_text = (\<lambda>v. ''[value]''),
      numeric_in = (\<lambda>s. map_option (\<lambda>n. Num (of_nat n)) (read_digits s)),
      int8_in = (\<lambda>s. map_option int (read_digits s)),
      interval_in = read_days,
      collation_key = (\<lambda>s. s),
      row_rank = rid,
      group_rank = (\<lambda>k. 0),
      message = (\<lambda>e. ''[message]'')\<rparr>"

text \<open>Stores and requests to evaluate on.\<close>

definition empty_store :: store where
  "empty_store = \<lparr>rows = [], next_id = 1\<rparr>"

definition sample_reading :: "int \<Rightarrow> string \<Rightarrow> string option \<Rightarrow> int \<Rightarrow> reading" where
  "sample_reading i pot loc t =
     \<lparr>rid = i, pot_id = pot, location = loc, raw_value = Num 512,
      moisture_percent = Num 45, timestamp = t\<rparr>"

definition sample_store :: store where
  "sample_store =
     \<lparr>rows = [sample_reading 1 ''B'' None 5,
              sample_reading 2 ''A'' (Some ''sill'') 7,
              sample_reading 3 ''A'' (Some ''desk'') 9,
              sample_reading 4 ''A'' (Some ''sill'') 8],
      next_id = 5\<rparr>"

text \<open>A store whose sequence has fallen behind the ids of the table.\<close>

definition stale_store :: store where
  "stale_store = \<lparr>rows = [sample_reading 1 ''B'' None 5], next_id = 1\<rparr>"

section \<open>Properties\<close>

subsection \<open>Ingest\<close>

lemma numeric_param_defined: "numeric_param p v = Inr (Some n) \<Longrightarrow> v \<noteq> JUndefined"
  by (auto simp: numeric_param_def)

lemma insert_reading_accepted:
  assumes "text_param p v1 = Inr (Some pot)"
    and "text_param p v2 = Inr loc"
    and "numeric_param p v3 = Inr (Some r)"
    and "numeric_param p v4 = Inr (Some m)"
    and "next_id st \<notin> set (map rid (rows st))"
  shows "insert_reading p now (v1, v2, v3, v4) st =
    (Inr \<lparr>rid = next_id st, pot_id = pot, location = loc,
          raw_value = r, moisture_percent = m, timestamp = now\<rparr>,
     st\<lparr>next_id := next_id st + 1,
        rows := rows st @ [\<lparr>rid = next_id st, pot_id = pot, location = loc,
          raw_value = r, moisture_percent = m, timestamp = now\<rparr>]\<rparr>)"
  using assms by (simp add: insert_reading_def Let_def)

lemma submit_accepted:
  assumes "truthy (js_get b ''pot_id'')"
    and "text_param p (js_get b ''pot_id'') = Inr (Some pot)"
    and "text_param p (js_or (js_get b ''location'') JNull) = Inr loc"
    and "numeric_param p (js_get b ''raw_value'') = Inr (Some r)"
    and "numeric_param p (js_get b ''moisture_percent'') = Inr (Some m)"
    and "next_id st \<notin> set (map rid (rows st))"
  shows "submit p now b st =
    (\<lparr>status = 201,
      body = [(''success'', OBool True),
              (''data'', ORow [(''id'', SInt (next_id st)),
                               (''pot_id'', SText pot),
                               (''location'', case loc of None \<Rightarrow> SNull | Some l \<Rightarrow> SText l),
                               (''raw_value'', SNumeric r),
                               (''moisture_percent'', SNumeric m),
                               (''timestamp'', STimestamp now)])]\<rparr>,
     st\<lparr>next_id := next_id st + 1,
        rows := rows st @ [\<lparr>rid = next_id st, pot_id = pot, location = loc,
                            raw_value = r, moisture_percent = m, timestamp = now\<rparr>]\<rparr>)"
proof -
  have "js_get b ''raw_value'' \<noteq> JUndefined" "js_get b ''moisture_percent'' \<noteq> JUndefined"
    using assms(4,5) by (auto dest: numeric_param_defined)
  then show ?thesis
    using assms(1) insert_reading_accepted [OF assms(2-6)]
    by (simp add: submit_def star_def opt_text_def)
qed

lemma insert_reading_taken_id:
  assumes "text_param p v1 = Inr (Some pot)"
    and "text_param p v2 = Inr loc"
    and "numeric_param p v3 = Inr (Some r)"
    and "numeric_param p v4 = Inr (Some m)"
    and "next_id st \<in> set (map rid (rows st))"
  shows "insert_reading p now (v1, v2, v3, v4) st =
    (Inl (UniqueViolation ''id''), st\<lparr>next_id := next_id st + 1\<rparr>)"
  using assms by (simp add: insert_reading_def Let_def)

text \<open>
  The stores the service builds: every id is below the next value of the sequence. This
  holds of the empty store, the two writing handlers keep it, and it makes the next id
  a fresh one.
\<close>

lemma ids_below_fresh: "ids_below st \<Longrightarrow> next_id st \<notin> set (map rid (rows st))"
  by (auto simp: ids_below_def)

lemma insert_reading_ids_below:
  "ids_below st \<Longrightarrow> ids_below (snd (insert_reading p now vals st))"
  by (cases vals)
    (auto simp: ids_below_def insert_reading_def Let_def split: sum.split option.split)

lemma submit_ids_below:
  assumes "ids_below st"
  shows "ids_below (snd (submit p now b st))"
proof -
  have "snd (submit p now b st) = st \<or>
        snd (submit p now b st) =
          snd (insert_reading p now
                (js_get b ''pot_id'', js_or (js_get b ''location'') JNull,
                 js_get b ''raw_value'', js_get b ''moisture_percent'') st)"
    by (auto simp: submit_def Let_def split: prod.split sum.split)
  then show ?thesis
    using assms insert_reading_ids_below [OF assms] by auto
qed

lemma cleanup_ids_below:
  "ids_below st \<Longrightarrow> cleanup p now query_days st = Some (resp, st') \<Longrightarrow> ids_below st'"
  by (auto simp: cleanup_def delete_older_def ids_below_def Let_def
      split: if_splits option.splits)

text \<open>
  C1 (as the claim states it, refuted). A body that contains \<open>pot_id\<close>, \<open>raw_value\<close> and
  \<open>moisture_percent\<close> is not always stored. The handler tests \<open>!pot_id\<close>, so a body whose
  \<open>pot_id\<close> is the empty string is answered with 400 and nothing is inserted. A body
  whose \<open>raw_value\<close> is \<open>null\<close> passes the handler's test, is refused by the store, and is
  answered with 500, no row being inserted; and so is a body whose \<open>pot_id\<close> holds the
  byte 0, and any body on a store whose next id is already taken.
\<close>

theorem submit_empty_pot_id_rejected:
  "map_of [(''pot_id'', JStr ''''), (''raw_value'', JNum 512), (''moisture_percent'', JNum 45)]
     ''pot_id'' = Some (JStr '''') \<and>
   submit sample_pg 10
     [(''pot_id'', JStr ''''), (''raw_value'', JNum 512), (''moisture_percent'', JNum 45)]
     empty_store =
     (\<lparr>status = 400,
       body = [(''error'',
               OStr ''Missing required fields: pot_id, raw_value, moisture_percent'')]\<rparr>,
      empty_store) \<and>
   map_of [(''pot_id'', JStr ''A''), (''raw_value'', JNull), (''moisture_percent'', JNum 45)]
     ''raw_value'' = Some JNull \<and>
   status (fst (submit sample_pg 10
     [(''pot_id'', JStr ''A''), (''raw_value'', JNull), (''moisture_percent'', JNum 45)]
     empty_store)) = 500 \<and>
   rows (snd (submit sample_pg 10
     [(''pot_id'', JStr ''A''), (''raw_value'', JNull), (''moisture_percent'', JNum 45)]
     empty_store)) = [] \<and>
   status (fst (submit sample_pg 10
     [(''pot_id'', JStr [CHR ''A'', CHR 0x00, CHR ''B'']), (''raw_value'', JNum 512),
      (''moisture_percent'', JNum 45)]
     empty_store)) = 500 \<and>
   rows (snd (submit sample_pg 10
     [(''pot_id'', JStr [CHR ''A'', CHR 0x00, CHR ''B'']), (''raw_value'', JNum 512),
      (''moisture_percent'', JNum 45)]
     empty_store)) = [] \<and>
   status (fst (submit sample_pg 10
     [(''pot_id'', JStr ''A''), (''raw_value'', JNum 512), (''moisture_percent'', JNum 45)]
     stale_store)) = 500 \<and>
   rows (snd (submit sample_pg 10
     [(''pot_id'', JStr ''A''), (''raw_value'', JNum 512), (''moisture_percent'', JNum 45)]
     stale_store)) = rows stale_store"
  by (simp add: submit_def js_get_def js_or_def insert_reading_def numeric_param_def
      text_param_def some_text_def text_in_def empty_store_def stale_store_def
      sample_reading_def)

text \<open>
  C1 (amended). For every submit request whose \<open>pot_id\<close> is truthy (for a string: not
  empty), whose \<open>pot_id\<close> and \<open>location\<close> are texts the store accepts (they hold no byte
  0) and whose \<open>raw_value\<close> and \<open>moisture_percent\<close> the store reads as numerics \<open>r\<close> and
  \<open>m\<close> (a finite JSON number is one; \<open>null\<close> is not), on a store whose next id is not
  taken, the ingest operation appends exactly one row to the store and returns 201; the
  \<open>data\<close> of the response is the full stored row, whose \<open>id\<close> is the next value of the
  store's sequence and whose \<open>timestamp\<close> is the server's clock, both not NULL.
\<close>

theorem submit_stores_reading:
  assumes "truthy (js_get b ''pot_id'')"
    and "text_param p (js_get b ''pot_id'') = Inr (Some pot)"
    and "text_param p (js_or (js_get b ''location'') JNull) = Inr loc"
    and "numeric_param p (js_get b ''raw_value'') = Inr (Some r)"
    and "numeric_param p (js_get b ''moisture_percent'') = Inr (Some m)"
    and "next_id st \<notin> set (map rid (rows st))"
  shows "submit p now b st =
    (\<lparr>status = 201,
      body = [(''success'', OBool True),
              (''data'', ORow [(''id'', SInt (next_id st)),
                               (''pot_id'', SText pot),
                               (''location'', case loc of None \<Rightarrow> SNull | Some l \<Rightarrow> SText l),
                               (''raw_value'', SNumeric r),
                               (''moisture_percent'', SNumeric m),
                               (''timestamp'', STimestamp now)])]\<rparr>,
     st\<lparr>next_id := next_id st + 1,
        rows := rows st @ [\<lparr>rid = next_id st, pot_id = pot, location = loc,
                            raw_value = r, moisture_percent = m, timestamp = now\<rparr>]\<rparr>)"
  using assms by (rule submit_accepted)

theorem submit_stores_reading_witness:
  "submit sample_pg 10
     [(''pot_id'', JStr ''A''), (''location'', JStr ''sill''), (''raw_value'', JNum 512),
      (''moisture_percent'', JNum 45)]
     sample_store =
   (\<lparr>status = 201,
     body = [(''success'', OBool True),
             (''data'', ORow [(''id'', SInt 5),
                              (''pot_id'', SText ''A''),
                              (''location'', SText ''sill''),
                              (''raw_value'', SNumeric (Num 512)),
                              (''moisture_percent'', SNumeric (Num 45)),
                              (''timestamp'', STimestamp 10)])]\<rparr>,
    \<lparr>rows = rows sample_store @
             [\<lparr>rid = 5, pot_id = ''A'', location = Some ''sill'', raw_value = Num 512,
               moisture_percent = Num 45, timestamp = 10\<rparr>],
     next_id = 6\<rparr>)"
  using submit_stores_reading
    [of "[(''pot_id'', JStr ''A''), (''location'', JStr ''sill''), (''raw_value'', JNum 512),
          (''moisture_percent'', JNum 45)]"
        sample_pg "''A''" "Some ''sill''" "Num 512" "Num 45" sample_store 10]
  by (simp add: js_get_def numeric_param_def text_param_def some_text_def text_in_def
      js_or_def sample_store_def sample_reading_def)

text \<open>
  C2 (as the claim states it, refuted). A request with \<open>raw_value\<close> 0 in which all the
  required fields are present is not always stored. With \<open>moisture_percent\<close> \<open>null\<close> it
  passes the handler's test, but the store refuses the NULL and the answer is 500, no
  row being inserted. With the empty string as \<open>pot_id\<close> it is refused as missing fields
  (400). With a \<open>pot_id\<close> that holds the byte 0, or on a store whose next id is already
  taken, the store refuses the row and the answer is 500.
\<close>

theorem submit_zero_not_stored:
  "map_of [(''pot_id'', JStr ''A''), (''raw_value'', JNum 0), (''moisture_percent'', JNull)]
     ''moisture_percent'' = Some JNull \<and>
   status (fst (submit sample_pg 10
     [(''pot_id'', JStr ''A''), (''raw_value'', JNum 0), (''moisture_percent'', JNull)]
     empty_store)) = 500 \<and>
   rows (snd (submit sample_pg 10
     [(''pot_id'', JStr ''A''), (''raw_value'', JNum 0), (''moisture_percent'', JNull)]
     empty_store)) = [] \<and>
   submit sample_pg 10
     [(''pot_id'', JStr ''''), (''raw_value'', JNum 0), (''moisture_percent'', JNum 45)]
     empty_store =
     (\<lparr>status = 400,
       body = [(''error'',
               OStr ''Missing required fields: pot_id, raw_value, moisture_percent'')]\<rparr>,
      empty_store) \<and>
   status (fst (submit sample_pg 10
     [(''pot_id'', JStr [CHR ''A'', CHR 0x00]), (''raw_value'', JNum 0),
      (''moisture_percent'', JNum 45)]
     empty_store)) = 500 \<and>
   rows (snd (submit sample_pg 10
     [(''pot_id'', JStr [CHR ''A'', CHR 0x00]), (''raw_value'', JNum 0),
      (''moisture_percent'', JNum 45)]
     empty_store)) = [] \<and>
   status (fst (submit sample_pg 10
     [(''pot_id'', JStr ''A''), (''raw_value'', JNum 0), (''moisture_percent'', JNum 45)]
     stale_store)) = 500 \<and>
   rows (snd (submit sample_pg 10
     [(''pot_id'', JStr ''A''), (''raw_value'', JNum 0), (''moisture_percent'', JNum 45)]
     stale_store)) = rows stale_store"
  by (simp add: submit_def js_get_def js_or_def insert_reading_def numeric_param_def
      text_param_def some_text_def text_in_def empty_store_def stale_store_def
      sample_reading_def)

text \<open>
  C2 (amended). A request in which \<open>raw_value\<close> is 0 or \<open>moisture_percent\<close> is 0, whose
  \<open>pot_id\<close> is truthy, whose \<open>pot_id\<close> and \<open>location\<close> are texts the store accepts and whose
  two numeric fields the store reads as the numerics \<open>r\<close> and \<open>m\<close> (so neither is
  \<open>null\<close>), on a store whose next id is not taken, is not refused as missing fields: the
  answer is 201 and the reading is stored with the zero in it.
\<close>

theorem submit_accepts_zero:
  assumes "js_get b ''raw_value'' = JNum 0 \<or> js_get b ''moisture_percent'' = JNum 0"
    and "truthy (js_get b ''pot_id'')"
    and "text_param p (js_get b ''pot_id'') = Inr (Some pot)"
    and "text_param p (js_or (js_get b ''location'') JNull) = Inr loc"
    and "numeric_param p (js_get b ''raw_value'') = Inr (Some r)"
    and "numeric_param p (js_get b ''moisture_percent'') = Inr (Some m)"
    and "next_id st \<notin> set (map rid (rows st))"
  shows "(r = Num 0 \<or> m = Num 0) \<and>
    submit p now b st =
    (\<lparr>status = 201,
      body = [(''success'', OBool True),
              (''data'', ORow [(''id'', SInt (next_id st)),
                               (''pot_id'', SText pot),
                               (''location'', case loc of None \<Rightarrow> SNull | Some l \<Rightarrow> SText l),
                               (''raw_value'', SNumeric r),
                               (''moisture_percent'', SNumeric m),
                               (''timestamp'', STimestamp now)])]\<rparr>,
     st\<lparr>next_id := next_id st + 1,
        rows := rows st @ [\<lparr>rid = next_id st, pot_id = pot, location = loc,
                            raw_value = r, moisture_percent = m, timestamp = now\<rparr>]\<rparr>)"
proof
  show "r = Num 0 \<or> m = Num 0"
    using assms(1,5,6) by (auto simp: numeric_param_def)
  show "submit p now b st =
    (\<lparr>status = 201,
      body = [(''success'', OBool True),
              (''data'', ORow [(''id'', SInt (next_id st)),
                               (''pot_id'', SText pot),
                               (''location'', case loc of None \<Rightarrow> SNull | Some l \<Rightarrow> SText l),
                               (''raw_value'', SNumeric r),
                               (''moisture_percent'', SNumeric m),
                               (''timestamp'', STimestamp now)])]\<rparr>,
     st\<lparr>next_id := next_id st + 1,
        rows := rows st @ [\<lparr>rid = next_id st, pot_id = pot, location = loc,
                            raw_value = r, moisture_percent = m, timestamp = now\<rparr>]\<rparr>)"
    using assms(2-7) by (rule submit_accepted)
qed

theorem submit_accepts_zero_witness:
  "submit sample_pg 10
     [(''pot_id'', JStr ''A''), (''raw_value'', JNum 0), (''moisture_percent'', JNum 45)]
     empty_store =
   (\<lparr>status = 201,
     body = [(''success'', OBool True),
             (''data'', ORow [(''id'', SInt 1),
                              (''pot_id'', SText ''A''),
                              (''location'', SNull),
                              (''raw_value'', SNumeric (Num 0)),
                              (''moisture_percent'', SNumeric (Num 45)),
                              (''timestamp'', STimestamp 10)])]\<rparr>,
    \<lparr>rows = [\<lparr>rid = 1, pot_id = ''A'', location = None, raw_value = Num 0,
               moisture_percent = Num 45, timestamp = 10\<rparr>],
     next_id = 2\<rparr>)"
  using submit_accepts_zero
    [of "[(''pot_id'', JStr ''A''), (''raw_value'', JNum 0), (''moisture_percent'', JNum 45)]"
        sample_pg "''A''" None "Num 0" "Num 45" empty_store 10]
  by (simp add: js_get_def numeric_param_def text_param_def some_text_def text_in_def
      js_or_def empty_store_def)

text \<open>
  C3 (as the claim states it, refuted). The body of the 400 response has an \<open>error\<close>
  string and nothing else: there is no \<open>details\<close> in it.
\<close>

theorem submit_missing_field_no_details:
  "map_of [(''raw_value'', JNum 512), (''moisture_percent'', JNum 45)] ''pot_id'' = None \<and>
   status (fst (submit sample_pg 10
     [(''raw_value'', JNum 512), (''moisture_percent'', JNum 45)] empty_store)) = 400 \<and>
   map_of (body (fst (submit sample_pg 10
     [(''raw_value'', JNum 512), (''moisture_percent'', JNum 45)] empty_store)))
     ''details'' = None"
  by (simp add: submit_def js_get_def)

text \<open>
  C3 (amended). For every submit request in which \<open>pot_id\<close>, \<open>raw_value\<close> or
  \<open>moisture_percent\<close> is missing, the ingest operation returns 400 with a JSON body that
  holds an \<open>error\<close> string (and no \<open>details\<close>), and the store is unchanged.
\<close>

theorem submit_missing_field:
  assumes "map_of b ''pot_id'' = None \<or> map_of b ''raw_value'' = None \<or>
           map_of b ''moisture_percent'' = None"
  shows "submit p now b st =
    (\<lparr>status = 400,
      body = [(''error'',
              OStr ''Missing required fields: pot_id, raw_value, moisture_percent'')]\<rparr>,
     st)"
proof -
  have "\<not> truthy (js_get b ''pot_id'') \<or> js_get b ''raw_value'' = JUndefined \<or>
        js_get b ''moisture_percent'' = JUndefined"
    using assms by (auto simp: js_get_def)
  then show ?thesis
    by (auto simp: submit_def Let_def)
qed

theorem submit_missing_field_witness:
  "submit sample_pg 10 [(''pot_id'', JStr ''A''), (''raw_value'', JNum 512)] sample_store =
    (\<lparr>status = 400,
      body = [(''error'',
              OStr ''Missing required fields: pot_id, raw_value, moisture_percent'')]\<rparr>,
     sample_store)"
  using submit_missing_field
    [of "[(''pot_id'', JStr ''A''), (''raw_value'', JNum 512)]" sample_pg 10 sample_store]
  by simp

subsection \<open>History\<close>

lemma newest_first_mset: "mset (newest_first p rs) = mset rs"
  by (simp add: newest_first_def)

lemma newest_first_length: "length (newest_first p rs) = length rs"
  by (simp add: newest_first_def)

lemma newest_first_sorted:
  "sorted_wrt (\<lambda>a b. timestamp b \<le> timestamp a) (newest_first p rs)"
proof -
  have "sorted (map (\<lambda>r. (- timestamp r, row_rank p r)) (newest_first p rs))"
    by (simp add: newest_first_def)
  then have "sorted_wrt (\<lambda>a b. (- timestamp a, row_rank p a) \<le> (- timestamp b, row_rank p b))
      (newest_first p rs)"
    by (simp add: sorted_map)
  then show ?thesis
    by (rule sorted_wrt_mono_rel [rotated]) (auto simp: less_le)
qed

lemma take_of_sorted:
  assumes "sorted_wrt P xs"
  shows "\<forall>r \<in># mset xs - mset (take n xs). \<forall>x \<in> set (take n xs). P x r"
proof -
  have split: "xs = take n xs @ drop n xs" by simp
  from assms have s: "sorted_wrt P (take n xs @ drop n xs)" by simp
  have "mset xs = mset (take n xs) + mset (drop n xs)"
    by (metis split mset_append)
  then have "mset xs - mset (take n xs) = mset (drop n xs)" by simp
  moreover from s have "\<forall>x \<in> set (take n xs). \<forall>r \<in> set (drop n xs). P x r"
    by (simp only: sorted_wrt_append) blast
  ultimately show ?thesis
    by auto
qed

lemma take_mset_subset: "mset (take n xs) \<subseteq># mset xs"
  by (metis append_take_drop_id mset_append mset_subset_eq_add_left)

text \<open>The limit the store works with: 100 when the parameter is absent or empty, else
  the number its text denotes.\<close>

lemma history_limit:
  assumes "(query_limit = None \<or> query_limit = Some []) \<and> n = 100 \<or>
           (\<exists>s. query_limit = Some s \<and> s \<noteq> [] \<and> int8_in p s = Some (int n))"
  shows "limit_param p (js_or (query_value query_limit) (JNum 100)) = Inr (Some n)"
  using assms
  by (auto simp: limit_param_def js_or_def query_value_def int8_text_def)

lemma history_answer:
  assumes "CHR 0x00 \<notin> set pot"
    and "limit_param p (js_or (query_value query_limit) (JNum 100)) = Inr (Some n)"
    and "rs = take n (newest_first p (filter (\<lambda>r. pot_id r = pot) (rows st)))"
  shows "history p pot query_limit st =
    \<lparr>status = 200,
     body = [(''success'', OBool True), (''pot_id'', OStr pot),
             (''count'', ONum (length rs)),
             (''data'', ORows (map (\<lambda>r.
                [(''id'', SInt (rid r)),
                 (''pot_id'', SText (pot_id r)),
                 (''location'', case location r of None \<Rightarrow> SNull | Some l \<Rightarrow> SText l),
                 (''raw_value'', SNumeric (raw_value r)),
                 (''moisture_percent'', SNumeric (moisture_percent r)),
                 (''timestamp'', STimestamp (timestamp r))]) rs))]\<rparr>"
  using assms
  by (simp add: history_def select_history_def text_in_def limit_rows_def star_def
      opt_text_def)

text \<open>
  C4 (as the claim states it, refuted). Not every pot_id has a history: the route
  parameter is handed to the store as a text, the store refuses a text that holds the
  byte 0, and the handler answers 500.
\<close>

theorem history_refused_pot_id:
  "status (history sample_pg [CHR ''a'', CHR 0x00, CHR ''b''] None sample_store) = 500 \<and>
   map_of (body (history sample_pg [CHR ''a'', CHR 0x00, CHR ''b''] None sample_store))
     ''data'' = None"
  by (simp add: history_def select_history_def text_in_def)

text \<open>
  C4 (amended). For every pot_id that the store accepts as a text (it holds no byte 0)
  and every limit \<open>n\<close> (100 when the query parameter is absent), the history is the 200
  response whose \<open>data\<close> are the full rows of a list \<open>rs\<close> of readings of the store with
  that pot_id (none taken twice), newest first, of length \<open>min n\<close> (number of readings
  of the pot); the readings left out are not newer than any returned one, and all are
  returned when \<open>n\<close> allows.
\<close>

theorem history_newest_first:
  assumes "CHR 0x00 \<notin> set pot"
    and "(query_limit = None \<or> query_limit = Some []) \<and> n = 100 \<or>
         (\<exists>s. query_limit = Some s \<and> s \<noteq> [] \<and> int8_in p s = Some (int n))"
    and "matching = filter (\<lambda>r. pot_id r = pot) (rows st)"
  shows "\<exists>rs.
    history p pot query_limit st =
      \<lparr>status = 200,
       body = [(''success'', OBool True), (''pot_id'', OStr pot),
               (''count'', ONum (length rs)),
               (''data'', ORows (map (\<lambda>r.
                  [(''id'', SInt (rid r)),
                   (''pot_id'', SText (pot_id r)),
                   (''location'', case location r of None \<Rightarrow> SNull | Some l \<Rightarrow> SText l),
                   (''raw_value'', SNumeric (raw_value r)),
                   (''moisture_percent'', SNumeric (moisture_percent r)),
                   (''timestamp'', STimestamp (timestamp r))]) rs))]\<rparr> \<and>
    mset rs \<subseteq># mset matching \<and>
    length rs = min n (length matching) \<and>
    (length matching \<le> n \<longrightarrow> mset rs = mset matching) \<and>
    sorted_wrt (\<lambda>a b. timestamp b \<le> timestamp a) rs \<and>
    (\<forall>r \<in># mset matching - mset rs. \<forall>x \<in> set rs. timestamp r \<le> timestamp x)"
proof -
  define rs where "rs = take n (newest_first p matching)"
  have answer: "history p pot query_limit st =
      \<lparr>status = 200,
       body = [(''success'', OBool True), (''pot_id'', OStr pot),
               (''count'', ONum (length rs)),
               (''data'', ORows (map (\<lambda>r.
                  [(''id'', SInt (rid r)),
                   (''pot_id'', SText (pot_id r)),
                   (''location'', case location r of None \<Rightarrow> SNull | Some l \<Rightarrow> SText l),
                   (''raw_value'', SNumeric (raw_value r)),
                   (''moisture_percent'', SNumeric (moisture_percent r)),
                   (''timestamp'', STimestamp (timestamp r))]) rs))]\<rparr>"
    using history_answer [OF assms(1) history_limit [OF assms(2)]] rs_def assms(3) by simp
  have sub: "mset rs \<subseteq># mset matching"
    using take_mset_subset [of n "newest_first p matching"]
    by (simp add: rs_def newest_first_mset)
  have len: "length rs = min n (length matching)"
    by (simp add: rs_def newest_first_length min.commute)
  have all: "length matching \<le> n \<longrightarrow> mset rs = mset matching"
    by (simp add: rs_def newest_first_length newest_first_mset)
  have desc: "sorted_wrt (\<lambda>a b. timestamp b \<le> timestamp a) rs"
    unfolding rs_def by (rule sorted_wrt_take [OF newest_first_sorted])
  have rest: "\<forall>r \<in># mset matching - mset rs. \<forall>x \<in> set rs. timestamp r \<le> timestamp x"
    using take_of_sorted [OF newest_first_sorted [of p matching], of n]
    by (simp add: rs_def newest_first_mset)
  from answer sub len all desc rest show ?thesis by blast
qed

theorem history_newest_first_witness:
  "history sample_pg ''A'' (Some ''2'') sample_store =
     \<lparr>status = 200,
      body = [(''success'', OBool True), (''pot_id'', OStr ''A''),
              (''count'', ONum 2),
              (''data'', ORows
                 [[(''id'', SInt 3), (''pot_id'', SText ''A''), (''location'', SText ''desk''),
                   (''raw_value'', SNumeric (Num 512)), (''moisture_percent'', SNumeric (Num 45)),
                   (''timestamp'', STimestamp 9)],
                  [(''id'', SInt 4), (''pot_id'', SText ''A''), (''location'', SText ''sill''),
                   (''raw_value'', SNumeric (Num 512)), (''moisture_percent'', SNumeric (Num 45)),
                   (''timestamp'', STimestamp 8)]])]\<rparr>"
proof -
  have nul: "CHR 0x00 \<notin> set ''A''"
    by simp
  have "int8_in sample_pg ''2'' = Some (int 2)"
    by (simp add: sample_pg_def read_digits_def is_digit_def)
  then have lim: "(Some ''2'' = None \<or> Some ''2'' = Some []) \<and> (2::nat) = 100 \<or>
        (\<exists>s. Some ''2'' = Some s \<and> s \<noteq> [] \<and> int8_in sample_pg s = Some (int 2))"
    by simp
  have "history sample_pg ''A'' (Some ''2'') sample_store =
     \<lparr>status = 200,
      body = [(''success'', OBool True), (''pot_id'', OStr ''A''),
              (''count'', ONum 2),
              (''data'', ORows
                 [[(''id'', SInt 3), (''pot_id'', SText ''A''), (''location'', SText ''desk''),
                   (''raw_value'', SNumeric (Num 512)), (''moisture_percent'', SNumeric (Num 45)),
                   (''timestamp'', STimestamp 9)],
                  [(''id'', SInt 4), (''pot_id'', SText ''A''), (''location'', SText ''sill''),
                   (''raw_value'', SNumeric (Num 512)), (''moisture_percent'', SNumeric (Num 45)),
                   (''timestamp'', STimestamp 8)]])]\<rparr>"
    by code_simp
  with history_newest_first [OF nul lim refl, of sample_store] show ?thesis
    by simp
qed

text \<open>
  C9 (as the claim states it, refuted). A pot_id that no reading has does not always
  get the empty list: when it holds the byte 0 the store refuses the text and the
  handler answers 500 with an error body.
\<close>

theorem history_unknown_pot_refused:
  "filter (\<lambda>r. pot_id r = [CHR ''x'', CHR 0x00]) (rows sample_store) = [] \<and>
   history sample_pg [CHR ''x'', CHR 0x00] None sample_store =
     \<lparr>status = 500,
      body = [(''error'', OStr ''Failed to fetch readings''),
              (''details'',
               OStr (message sample_pg (InvalidByteSequence [CHR ''x'', CHR 0x00])))]\<rparr>"
  by (simp add: history_def select_history_def text_in_def sample_store_def
      sample_reading_def)

text \<open>
  C9 (amended). For a pot_id that the store accepts as a text (it holds no byte 0) and
  that no reading of the store has, the history (with the default limit, or any limit
  that is a number) is the 200 response with count 0 and an empty data list: there is
  no check that the pot exists.
\<close>

theorem history_unknown_pot:
  assumes "CHR 0x00 \<notin> set pot"
    and "\<forall>r \<in> set (rows st). pot_id r \<noteq> pot"
    and "(query_limit = None \<or> query_limit = Some []) \<and> n = 100 \<or>
         (\<exists>s. query_limit = Some s \<and> s \<noteq> [] \<and> int8_in p s = Some (int n))"
  shows "history p pot query_limit st =
    \<lparr>status = 200,
     body = [(''success'', OBool True), (''pot_id'', OStr pot),
             (''count'', ONum 0), (''data'', ORows [])]\<rparr>"
proof -
  have "filter (\<lambda>r. pot_id r = pot) (rows st) = []"
    using assms(2) by (simp add: filter_empty_conv)
  then have "[] = take n (newest_first p (filter (\<lambda>r. pot_id r = pot) (rows st)))"
    by (simp add: newest_first_def)
  from history_answer [OF assms(1) history_limit [OF assms(3)] this]
  show ?thesis by simp
qed

theorem history_unknown_pot_witness:
  "history sample_pg ''unknown-pot'' None sample_store =
    \<lparr>status = 200,
     body = [(''success'', OBool True), (''pot_id'', OStr ''unknown-pot''),
             (''count'', ONum 0), (''data'', ORows [])]\<rparr>"
proof -
  have nul: "CHR 0x00 \<notin> set ''unknown-pot''"
    by simp
  have "\<forall>r \<in> set (rows sample_store). pot_id r \<noteq> ''unknown-pot''"
    by (simp add: sample_store_def sample_reading_def)
  from history_unknown_pot [OF nul this, of None 100 sample_pg]
  show ?thesis by simp
qed

subsection \<open>Latest snapshot\<close>

lemma distinct_on_subset: "set (distinct_on f xs) \<subseteq> set xs"
  by (induction f xs rule: distinct_on.induct) auto

lemma distinct_on_keys: "f ` set (distinct_on f xs) = f ` set xs"
  by (induction f xs rule: distinct_on.induct) auto

lemma distinct_on_same_runs:
  assumes "\<forall>x y. (f x = f y) = (g x = g y)"
  shows "distinct_on f xs = distinct_on g xs"
  using assms by (induction f xs rule: distinct_on.induct) auto

lemma distinct_on_ascending:
  fixes f :: "'a \<Rightarrow> 'k::linorder"
  assumes "sorted (map f xs)"
  shows "sorted_wrt (<) (map f (distinct_on f xs))"
  using assms
proof (induction f xs rule: distinct_on.induct)
  case (3 f x y ys)
  show ?case
  proof (cases "f x = f y")
    case True
    with 3 show ?thesis by simp
  next
    case False
    have "f x < f z" if "z \<in> set (distinct_on f (y # ys))" for z
    proof -
      from that distinct_on_subset [of f "y # ys"] have "z \<in> set (y # ys)" by blast
      with "3.prems" have "f y \<le> f z" by auto
      moreover from "3.prems" False have "f x < f y" by (simp add: less_le)
      ultimately show ?thesis by simp
    qed
    with 3 False show ?thesis by simp
  qed
qed simp_all

lemma distinct_on_newest:
  fixes f :: "'a \<Rightarrow> 'k::linorder" and h :: "'a \<Rightarrow> 'j::linorder" and t :: "'a \<Rightarrow> int"
  assumes "sorted (map (\<lambda>r. (f r, h r)) xs)"
    and later: "\<And>a b. h a \<le> h b \<Longrightarrow> t b \<le> t a"
  shows "\<forall>z \<in> set (distinct_on f xs). \<forall>r \<in> set xs. f r = f z \<longrightarrow> t r \<le> t z"
  using assms(1)
proof (induction f xs rule: distinct_on.induct)
  case (3 f x y ys)
  from "3.prems" have xy: "f x < f y \<or> f x = f y \<and> t y \<le> t x"
    by (auto simp: less_le intro: later)
  from "3.prems" have after_x: "\<forall>r \<in> set ys. f x < f r \<or> f x = f r \<and> t r \<le> t x"
    by (auto simp: less_le intro: later)
  from "3.prems" have after_y: "\<forall>r \<in> set ys. f y < f r \<or> f y = f r \<and> t r \<le> t y"
    by (auto simp: less_le intro: later)
  show ?case
  proof (cases "f x = f y")
    case True
    from "3.prems" have "sorted (map (\<lambda>r. (f r, h r)) (x # ys))" by simp
    with 3 True
    have ih: "\<forall>z \<in> set (distinct_on f (x # ys)). \<forall>r \<in> set (x # ys). f r = f z \<longrightarrow> t r \<le> t z"
      by simp
    have "t y \<le> t z" if "z \<in> set (distinct_on f (x # ys))" "f y = f z" for z
    proof -
      from ih that True have "t x \<le> t z" by simp
      with xy True show ?thesis by simp
    qed
    with ih True show ?thesis by auto
  next
    case False
    from "3.prems" have "sorted (map (\<lambda>r. (f r, h r)) (y # ys))" by simp
    with 3 False
    have ih: "\<forall>z \<in> set (distinct_on f (y # ys)). \<forall>r \<in> set (y # ys). f r = f z \<longrightarrow> t r \<le> t z"
      by simp
    have head: "\<forall>r \<in> set (x # y # ys). f r = f x \<longrightarrow> t r \<le> t x"
      using False after_x by auto
    have "f x \<noteq> f z" if "z \<in> set (distinct_on f (y # ys))" for z
    proof -
      from that distinct_on_subset [of f "y # ys"] have "z \<in> set (y # ys)" by blast
      with after_y have "f y \<le> f z" by auto
      with xy False show ?thesis by auto
    qed
    with ih head False show ?thesis by auto
  qed
qed simp_all

lemma sorted_first_key:
  fixes f :: "'a \<Rightarrow> 'k::linorder" and g :: "'a \<Rightarrow> 'j::linorder"
  shows "sorted (map (\<lambda>r. (f r, g r)) xs) \<Longrightarrow> sorted (map f xs)"
  by (induction xs) (auto simp: less_le)

lemma text_order_same: "(text_order p a = text_order p b) = (a = b)"
  by (auto simp: text_order_def)

text \<open>The rows as the statement sorts them, and what \<open>DISTINCT ON\<close> keeps of them.\<close>

lemma select_latest_runs:
  "select_latest p st =
     distinct_on (\<lambda>r. text_order p (pot_id r))
       (sort_key (\<lambda>r. (text_order p (pot_id r), - timestamp r, row_rank p r)) (rows st))"
  unfolding select_latest_def
  by (rule distinct_on_same_runs) (simp add: text_order_same)

lemma select_latest_subset: "set (select_latest p st) \<subseteq> set (rows st)"
  using distinct_on_subset
    [of pot_id "sort_key (\<lambda>r. (text_order p (pot_id r), - timestamp r, row_rank p r)) (rows st)"]
  by (simp add: select_latest_def)

lemma select_latest_pots: "pot_id ` set (select_latest p st) = pot_id ` set (rows st)"
  by (simp add: select_latest_def distinct_on_keys)

lemma select_latest_ascending:
  "sorted_wrt (<) (map (\<lambda>r. text_order p (pot_id r)) (select_latest p st))"
proof -
  have "sorted (map (\<lambda>r. (text_order p (pot_id r), - timestamp r, row_rank p r))
          (sort_key (\<lambda>r. (text_order p (pot_id r), - timestamp r, row_rank p r)) (rows st)))"
    by simp
  then have "sorted (map (\<lambda>r. text_order p (pot_id r))
          (sort_key (\<lambda>r. (text_order p (pot_id r), - timestamp r, row_rank p r)) (rows st)))"
    by (rule sorted_first_key)
  then show ?thesis
    unfolding select_latest_runs by (rule distinct_on_ascending)
qed

lemma select_latest_newest:
  "\<forall>x \<in> set (select_latest p st). \<forall>r \<in> set (rows st).
     pot_id r = pot_id x \<longrightarrow> timestamp r \<le> timestamp x"
proof -
  have "sorted (map (\<lambda>r. (text_order p (pot_id r), - timestamp r, row_rank p r))
          (sort_key (\<lambda>r. (text_order p (pot_id r), - timestamp r, row_rank p r)) (rows st)))"
    by simp
  moreover have "timestamp b \<le> timestamp a"
    if "(- timestamp a, row_rank p a) \<le> (- timestamp b, row_rank p b)" for a b
    using that by (auto simp: less_le)
  ultimately
  have "\<forall>z \<in> set (distinct_on (\<lambda>r. text_order p (pot_id r))
           (sort_key (\<lambda>r. (text_order p (pot_id r), - timestamp r, row_rank p r)) (rows st))).
        \<forall>r \<in> set (sort_key (\<lambda>r. (text_order p (pot_id r), - timestamp r, row_rank p r)) (rows st)).
          text_order p (pot_id r) = text_order p (pot_id z) \<longrightarrow> timestamp r \<le> timestamp z"
    by (rule distinct_on_newest)
  then show ?thesis
    by (simp add: select_latest_runs text_order_same)
qed

text \<open>
  C5. For every store, the latest snapshot is made of readings \<open>rs\<close> of the store, one
  for each pot_id that occurs in the store and no two for the same pot_id, each with the
  greatest timestamp among the readings of its pot_id, in ascending order of pot_id (the
  order of texts in the database); each row of \<open>data\<close> carries the pot_id and the
  timestamp of its reading.
\<close>

theorem latest_one_row_per_pot:
  "\<exists>rs.
    latestPerPot p st =
      \<lparr>status = 200,
       body = [(''success'', OBool True), (''count'', ONum (length rs)),
               (''data'', ORows (map (\<lambda>r.
                  [(''pot_id'', SText (pot_id r)),
                   (''location'', case location r of None \<Rightarrow> SNull | Some l \<Rightarrow> SText l),
                   (''raw_value'', SNumeric (raw_value r)),
                   (''moisture_percent'', SNumeric (moisture_percent r)),
                   (''timestamp'', STimestamp (timestamp r))]) rs))]\<rparr> \<and>
    set rs \<subseteq> set (rows st) \<and>
    pot_id ` set rs = pot_id ` set (rows st) \<and>
    distinct (map pot_id rs) \<and>
    sorted (map (\<lambda>r. (collation_key p (pot_id r), pot_id r)) rs) \<and>
    (\<forall>x \<in> set rs. \<forall>r \<in> set (rows st). pot_id r = pot_id x \<longrightarrow> timestamp r \<le> timestamp x)"
proof -
  have answer: "latestPerPot p st =
      \<lparr>status = 200,
       body = [(''success'', OBool True), (''count'', ONum (length (select_latest p st))),
               (''data'', ORows (map (\<lambda>r.
                  [(''pot_id'', SText (pot_id r)),
                   (''location'', case location r of None \<Rightarrow> SNull | Some l \<Rightarrow> SText l),
                   (''raw_value'', SNumeric (raw_value r)),
                   (''moisture_percent'', SNumeric (moisture_percent r)),
                   (''timestamp'', STimestamp (timestamp r))]) (select_latest p st)))]\<rparr>"
    by (simp add: latestPerPot_def latest_columns_def opt_text_def)
  have strict: "sorted_wrt (<) (map (\<lambda>r. (collation_key p (pot_id r), pot_id r)) (select_latest p st))"
    using select_latest_ascending [of p st] by (simp add: text_order_def)
  then have ascending: "sorted (map (\<lambda>r. (collation_key p (pot_id r), pot_id r)) (select_latest p st))"
    by (simp add: strict_sorted_iff)
  from strict have "distinct (map (\<lambda>r. (collation_key p (pot_id r), pot_id r)) (select_latest p st))"
    by (simp add: strict_sorted_iff)
  then have one: "distinct (map pot_id (select_latest p st))"
    by (auto simp: distinct_map inj_on_def)
  from answer ascending one show ?thesis
    using select_latest_subset select_latest_pots select_latest_newest by blast
qed

theorem latest_one_row_per_pot_witness:
  "latestPerPot sample_pg sample_store =
     \<lparr>status = 200,
      body = [(''success'', OBool True), (''count'', ONum 2),
              (''data'', ORows
                [[(''pot_id'', SText ''A''), (''location'', SText ''desk''),
                  (''raw_value'', SNumeric (Num 512)), (''moisture_percent'', SNumeric (Num 45)),
                  (''timestamp'', STimestamp 9)],
                 [(''pot_id'', SText ''B''), (''location'', SNull),
                  (''raw_value'', SNumeric (Num 512)), (''moisture_percent'', SNumeric (Num 45)),
                  (''timestamp'', STimestamp 5)]])]\<rparr>"
proof -
  have "latestPerPot sample_pg sample_store =
     \<lparr>status = 200,
      body = [(''success'', OBool True), (''count'', ONum 2),
              (''data'', ORows
                [[(''pot_id'', SText ''A''), (''location'', SText ''desk''),
                  (''raw_value'', SNumeric (Num 512)), (''moisture_percent'', SNumeric (Num 45)),
                  (''timestamp'', STimestamp 9)],
                 [(''pot_id'', SText ''B''), (''location'', SNull),
                  (''raw_value'', SNumeric (Num 512)), (''moisture_percent'', SNumeric (Num 45)),
                  (''timestamp'', STimestamp 5)]])]\<rparr>"
    by code_simp
  with latest_one_row_per_pot [of sample_pg sample_store] show ?thesis
    by simp
qed

text \<open>
  C6 (as the claim states it, refuted). The rows of the latest snapshot have no \<open>id\<close>:
  the select list of the statement names five columns and \<open>id\<close> is not one of them.
\<close>

theorem latest_row_without_id:
  "map_of (body (latestPerPot sample_pg sample_store)) ''data'' =
     Some (ORows
       [[(''pot_id'', SText ''A''), (''location'', SText ''desk''),
         (''raw_value'', SNumeric (Num 512)), (''moisture_percent'', SNumeric (Num 45)),
         (''timestamp'', STimestamp 9)],
        [(''pot_id'', SText ''B''), (''location'', SNull),
         (''raw_value'', SNumeric (Num 512)), (''moisture_percent'', SNumeric (Num 45)),
         (''timestamp'', STimestamp 5)]]) \<and>
   map_of [(''pot_id'', SText ''A''), (''location'', SText ''desk''),
           (''raw_value'', SNumeric (Num 512)), (''moisture_percent'', SNumeric (Num 45)),
           (''timestamp'', STimestamp 9)] ''id'' = None"
proof -
  have "select_latest sample_pg sample_store =
      [sample_reading 3 ''A'' (Some ''desk'') 9, sample_reading 1 ''B'' None 5]"
    by code_simp
  then show ?thesis
    by (simp add: latestPerPot_def latest_columns_def sample_reading_def opt_text_def)
qed

text \<open>
  C6 (amended). Every row returned by the latest snapshot carries the \<open>pot_id\<close>,
  \<open>location\<close>, \<open>raw_value\<close>, \<open>moisture_percent\<close> and \<open>timestamp\<close> of a reading of the
  store, in this order, and no \<open>id\<close>.
\<close>

theorem latest_rows_columns:
  "\<exists>rws.
    map_of (body (latestPerPot p st)) ''data'' = Some (ORows rws) \<and>
    (\<forall>rw \<in> set rws. \<exists>r \<in> set (rows st).
       rw = [(''pot_id'', SText (pot_id r)), (''location'', opt_text (location r)),
             (''raw_value'', SNumeric (raw_value r)),
             (''moisture_percent'', SNumeric (moisture_percent r)),
             (''timestamp'', STimestamp (timestamp r))] \<and>
       map_of rw ''id'' = None)"
proof -
  have "map_of (body (latestPerPot p st)) ''data'' =
      Some (ORows (map latest_columns (select_latest p st)))"
    by (simp add: latestPerPot_def)
  moreover have "\<forall>rw \<in> set (map latest_columns (select_latest p st)). \<exists>r \<in> set (rows st).
       rw = [(''pot_id'', SText (pot_id r)), (''location'', opt_text (location r)),
             (''raw_value'', SNumeric (raw_value r)),
             (''moisture_percent'', SNumeric (moisture_percent r)),
             (''timestamp'', STimestamp (timestamp r))] \<and>
       map_of rw ''id'' = None"
    using select_latest_subset [of p st] by (auto simp: latest_columns_def)
  ultimately show ?thesis by blast
qed

theorem latest_rows_columns_witness:
  "\<exists>rws.
    map_of (body (latestPerPot sample_pg sample_store)) ''data'' = Some (ORows rws) \<and>
    map (map fst) rws =
      [[''pot_id'', ''location'', ''raw_value'', ''moisture_percent'', ''timestamp''],
       [''pot_id'', ''location'', ''raw_value'', ''moisture_percent'', ''timestamp'']]"
proof -
  have "select_latest sample_pg sample_store =
      [sample_reading 3 ''A'' (Some ''desk'') 9, sample_reading 1 ''B'' None 5]"
    by code_simp
  with latest_rows_columns [of sample_pg sample_store] show ?thesis
    by (simp add: latestPerPot_def latest_columns_def)
qed

subsection \<open>Inventory\<close>

lemma summarize_key:
  "(group_pot_id (summarize rs k), group_location (summarize rs k)) = k"
  by (simp add: summarize_def Let_def)

lemma summarize_count:
  "reading_count (summarize rs k) =
     length (filter (\<lambda>r. pot_id r = fst k \<and> location r = snd k) rs)"
proof -
  have "(\<lambda>r. group_key r = k) = (\<lambda>r. pot_id r = fst k \<and> location r = snd k)"
    by (auto simp: group_key_def)
  then show ?thesis
    by (simp add: summarize_def Let_def)
qed

lemma summarize_last:
  "last_reading (summarize rs k) =
     Max (timestamp ` {r \<in> set rs. pot_id r = fst k \<and> location r = snd k})"
proof -
  have "set (map timestamp (filter (\<lambda>r. group_key r = k) rs)) =
        timestamp ` {r \<in> set rs. pot_id r = fst k \<and> location r = snd k}"
    by (auto simp: group_key_def)
  then show ?thesis
    by (simp add: summarize_def Let_def)
qed

lemma group_keys_set:
  "set (sort_key f (remdups (map group_key rs))) = (\<lambda>r. (pot_id r, location r)) ` set rs"
  by (auto simp: group_key_def)

lemma select_pots_keys:
  "map (\<lambda>g. (group_pot_id g, group_location g)) (select_pots p st) =
     sort_key (\<lambda>k. (text_order p (fst k), group_rank p k)) (remdups (map group_key (rows st)))"
  by (simp add: select_pots_def comp_def summarize_key)

text \<open>
  C7. For every store, the inventory has exactly one row for each pair of pot_id and
  location that occurs among the readings (so one pot_id seen with several locations has
  several rows); the row holds the pair, as \<open>reading_count\<close> the number of readings with
  the pair and as \<open>last_reading\<close> the greatest timestamp among them; the rows are in
  ascending order of pot_id (the order of texts in the database).
\<close>

theorem listPots_one_row_per_pair:
  "\<exists>gs :: pot_summary list.
    listPots p st =
      \<lparr>status = 200,
       body = [(''success'', OBool True), (''count'', ONum (length gs)),
               (''data'', ORows (map (\<lambda>g.
                  [(''pot_id'', SText (group_pot_id g)),
                   (''location'', case group_location g of None \<Rightarrow> SNull | Some l \<Rightarrow> SText l),
                   (''reading_count'', SInt (int (reading_count g))),
                   (''last_reading'', STimestamp (last_reading g))]) gs))]\<rparr> \<and>
    distinct (map (\<lambda>g. (group_pot_id g, group_location g)) gs) \<and>
    set (map (\<lambda>g. (group_pot_id g, group_location g)) gs) =
      (\<lambda>r. (pot_id r, location r)) ` set (rows st) \<and>
    (\<forall>g \<in> set gs.
       0 < reading_count g \<and>
       reading_count g =
         length (filter (\<lambda>r. pot_id r = group_pot_id g \<and> location r = group_location g)
                   (rows st)) \<and>
       last_reading g =
         Max (timestamp ` {r \<in> set (rows st).
                pot_id r = group_pot_id g \<and> location r = group_location g})) \<and>
    sorted (map (\<lambda>g. (collation_key p (group_pot_id g), group_pot_id g)) gs)"
proof -
  define ks where
    "ks = sort_key (\<lambda>k. (text_order p (fst k), group_rank p k)) (remdups (map group_key (rows st)))"
  have answer: "listPots p st =
      \<lparr>status = 200,
       body = [(''success'', OBool True), (''count'', ONum (length (select_pots p st))),
               (''data'', ORows (map (\<lambda>g.
                  [(''pot_id'', SText (group_pot_id g)),
                   (''location'', case group_location g of None \<Rightarrow> SNull | Some l \<Rightarrow> SText l),
                   (''reading_count'', SInt (int (reading_count g))),
                   (''last_reading'', STimestamp (last_reading g))]) (select_pots p st)))]\<rparr>"
    by (simp add: listPots_def summary_columns_def opt_text_def)
  have keys: "map (\<lambda>g. (group_pot_id g, group_location g)) (select_pots p st) = ks"
    by (simp add: ks_def select_pots_keys)
  have "distinct ks"
    by (simp add: ks_def)
  with keys have one: "distinct (map (\<lambda>g. (group_pot_id g, group_location g)) (select_pots p st))"
    by simp
  have every: "set (map (\<lambda>g. (group_pot_id g, group_location g)) (select_pots p st)) =
      (\<lambda>r. (pot_id r, location r)) ` set (rows st)"
    by (simp only: keys ks_def group_keys_set)
  have aggregates: "\<forall>g \<in> set (select_pots p st).
       0 < reading_count g \<and>
       reading_count g =
         length (filter (\<lambda>r. pot_id r = group_pot_id g \<and> location r = group_location g)
                   (rows st)) \<and>
       last_reading g =
         Max (timestamp ` {r \<in> set (rows st).
                pot_id r = group_pot_id g \<and> location r = group_location g})"
  proof
    fix g assume "g \<in> set (select_pots p st)"
    then obtain k where g: "g = summarize (rows st) k" and "k \<in> group_key ` set (rows st)"
      by (auto simp: select_pots_def)
    then have "filter (\<lambda>r. group_key r = k) (rows st) \<noteq> []"
      by (auto simp: filter_empty_conv)
    then have some: "0 < reading_count g"
      by (simp add: g summarize_def Let_def)
    have k: "fst k = group_pot_id g" "snd k = group_location g"
      using summarize_key [of "rows st" k] by (simp_all add: g prod_eq_iff)
    show "0 < reading_count g \<and> reading_count g =
         length (filter (\<lambda>r. pot_id r = group_pot_id g \<and> location r = group_location g)
                   (rows st)) \<and>
       last_reading g =
         Max (timestamp ` {r \<in> set (rows st).
                pot_id r = group_pot_id g \<and> location r = group_location g})"
      using some summarize_count [of "rows st" k] summarize_last [of "rows st" k]
      by (simp only: g [symmetric] k)
  qed
  have "sorted (map (\<lambda>k. (text_order p (fst k), group_rank p k)) ks)"
    by (simp add: ks_def)
  then have "sorted (map (\<lambda>k. text_order p (fst k)) ks)"
    by (rule sorted_first_key)
  moreover have "map (\<lambda>k. text_order p (fst k)) ks =
      map (\<lambda>g. (collation_key p (group_pot_id g), group_pot_id g)) (select_pots p st)"
    by (simp add: keys [symmetric] comp_def text_order_def)
  ultimately
  have ascending: "sorted (map (\<lambda>g. (collation_key p (group_pot_id g), group_pot_id g))
      (select_pots p st))"
    by simp
  show ?thesis
    by (rule exI [of _ "select_pots p st"])
      (intro conjI answer one every aggregates ascending)
qed

theorem listPots_one_row_per_pair_witness:
  "\<exists>gs.
    listPots sample_pg sample_store =
      \<lparr>status = 200,
       body = [(''success'', OBool True), (''count'', ONum 3),
               (''data'', ORows (map (\<lambda>g.
                  [(''pot_id'', SText (group_pot_id g)),
                   (''location'', case group_location g of None \<Rightarrow> SNull | Some l \<Rightarrow> SText l),
                   (''reading_count'', SInt (int (reading_count g))),
                   (''last_reading'', STimestamp (last_reading g))]) gs))]\<rparr> \<and>
    map group_pot_id gs = [''A'', ''A'', ''B''] \<and>
    mset gs =
      {#\<lparr>group_pot_id = ''B'', group_location = None,
          reading_count = 1, last_reading = 5\<rparr>,
        \<lparr>group_pot_id = ''A'', group_location = Some ''sill'',
          reading_count = 2, last_reading = 8\<rparr>,
        \<lparr>group_pot_id = ''A'', group_location = Some ''desk'',
          reading_count = 1, last_reading = 9\<rparr>#}"
proof -
  have "select_pots sample_pg sample_store =
      [\<lparr>group_pot_id = ''A'', group_location = Some ''desk'',
            reading_count = 1, last_reading = 9\<rparr>,
          \<lparr>group_pot_id = ''A'', group_location = Some ''sill'',
            reading_count = 2, last_reading = 8\<rparr>,
          \<lparr>group_pot_id = ''B'', group_location = None,
            reading_count = 1, last_reading = 5\<rparr>]"
    by code_simp
  with listPots_one_row_per_pair [of sample_pg sample_store] show ?thesis
    by (intro exI [of _ "select_pots sample_pg sample_store"])
      (simp add: listPots_def summary_columns_def opt_text_def)
qed

subsection \<open>Retention cleanup\<close>




subsection \<open>Counts\<close>

text \<open>
  C10. In every 200 response of the history, of the latest snapshot and of the
  inventory, \<open>count\<close> is the length of the \<open>data\<close> list (the latter two always answer 200).
\<close>

theorem count_is_length_of_data:
  "(status (history p pot query_limit st) = 200 \<longrightarrow>
      (\<exists>rws. map_of (body (history p pot query_limit st)) ''count'' = Some (ONum (length rws)) \<and>
             map_of (body (history p pot query_limit st)) ''data'' = Some (ORows rws))) \<and>
   status (latestPerPot p st) = 200 \<and>
   (\<exists>rws. map_of (body (latestPerPot p st)) ''count'' = Some (ONum (length rws)) \<and>
          map_of (body (latestPerPot p st)) ''data'' = Some (ORows rws)) \<and>
   status (listPots p st) = 200 \<and>
   (\<exists>rws. map_of (body (listPots p st)) ''count'' = Some (ONum (length rws)) \<and>
          map_of (body (listPots p st)) ''data'' = Some (ORows rws))"
proof -
  have "status (history p pot query_limit st) = 200 \<longrightarrow>
      (\<exists>rws. map_of (body (history p pot query_limit st)) ''count'' = Some (ONum (length rws)) \<and>
             map_of (body (history p pot query_limit st)) ''data'' = Some (ORows rws))"
    by (simp add: history_def Let_def split: sum.split)
  moreover have "status (latestPerPot p st) = 200 \<and>
   (\<exists>rws. map_of (body (latestPerPot p st)) ''count'' = Some (ONum (length rws)) \<and>
          map_of (body (latestPerPot p st)) ''data'' = Some (ORows rws))"
    by (simp add: latestPerPot_def Let_def)
  moreover have "status (listPots p st) = 200 \<and>
   (\<exists>rws. map_of (body (listPots p st)) ''count'' = Some (ONum (length rws)) \<and>
          map_of (body (listPots p st)) ''data'' = Some (ORows rws))"
    by (simp add: listPots_def Let_def)
  ultimately show ?thesis by blast
qed

theorem count_is_length_of_data_witness:
  "status (history sample_pg ''A'' None sample_store) = 200 \<and>
   map_of (body (history sample_pg ''A'' None sample_store)) ''count'' = Some (ONum 3) \<and>
   (\<exists>rws. map_of (body (history sample_pg ''A'' None sample_store)) ''data'' = Some (ORows rws) \<and>
          length rws = 3)"
proof -
  have "status (history sample_pg ''A'' None sample_store) = 200"
    by (simp add: history_def select_history_def text_in_def limit_param_def js_or_def
        query_value_def)
  moreover have "map_of (body (history sample_pg ''A'' None sample_store)) ''count'' = Some (ONum 3)"
    by (simp add: history_def select_history_def text_in_def limit_param_def js_or_def
        query_value_def limit_rows_def newest_first_def sample_store_def sample_reading_def)
  ultimately show ?thesis
    using count_is_length_of_data [of sample_pg "''A''" None sample_store]
    by auto
qed

end
